theory Spec2Isabelle
  imports Main "HOL-Library.Word"
begin

section \<open>Values exchanged with the outside\<close>

text \<open>
  The server of \<^verbatim>\<open>server.js\<close> keeps three in-memory maps (\<^verbatim>\<open>whatsappClients\<close>,
  \<^verbatim>\<open>clientStates\<close>, \<^verbatim>\<open>userWebhooks\<close>), talks to a relational store (the tables
  \<^verbatim>\<open>whatsapp_sessions\<close> and \<^verbatim>\<open>webhook_logs\<close>), to one messaging client object per user
  and to the users' webhook endpoints. The model below follows the route handlers from
  the point where \<^verbatim>\<open>authenticateUser\<close> and the rate limiter have called \<^verbatim>\<open>next()\<close>:
  the user id is a parameter. Time stamps (\<^verbatim>\<open>updated_at\<close>, \<^verbatim>\<open>created_at\<close>) and console
  output are left out.
\<close>

type_synonym userId = string

text \<open>A client object is known by its identity; \<^verbatim>\<open>new Client(...)\<close> yields a fresh one.\<close>

type_synonym handle = nat

text \<open>
  A JavaScript string of arbitrary content is the list of its UTF-16 code units. The
  strings the server writes itself, and the fields it matches against patterns of digits
  and ASCII letters, are kept as lists of characters; \<open>utf16_of\<close> gives the code units
  of such a string.
\<close>

type_synonym utf16 = "16 word list"

definition utf16_of :: "string \<Rightarrow> utf16" where
  "utf16_of str = map (\<lambda>c. of_nat (of_char c)) str"

text \<open>
  JSON values, as they appear in request and response bodies. \<open>JStr\<close> holds a string
  of characters, \<open>JText\<close> a string of arbitrary content as its code units. \<open>JNum\<close>
  holds the natural numbers; no other number passes the validation of a field of the
  model.
\<close>

datatype jval =
    JNull
  | JBool bool
  | JNum nat
  | JStr string
  | JText utf16
  | JArr "jval list"
  | JObj "(string \<times> jval) list"

text \<open>\<^verbatim>\<open>res.status(n).json(obj)\<close>; a bare \<^verbatim>\<open>res.json(obj)\<close> has status 200.\<close>

record response =
  status :: nat
  body :: "(string \<times> jval) list"

text \<open>
  An awaited call into the messaging client or \<^verbatim>\<open>fetch\<close>: the promise is fulfilled with
  a value or rejected with an error whose \<^verbatim>\<open>message\<close> is kept.
\<close>

datatype 'a outcome = Resolved 'a | Rejected string

section \<open>Request validation\<close>

text \<open>
  The chains of express-validator used by the routes. \<^verbatim>\<open>trim()\<close> strips the white space
  of JavaScript's \<^verbatim>\<open>\s\<close> from both ends and replaces the field in \<^verbatim>\<open>req.body\<close>; the
  validators after it see the trimmed value. A field missing from the body validates as
  the empty string. Of each error the field and the message are kept; the error objects
  of the library carry more (the value, the location).
\<close>

definition is_space :: "char \<Rightarrow> bool" where
  "is_space c = (c \<in> set [CHR 0x09, CHR 0x0A, CHR 0x0B, CHR 0x0C, CHR 0x0D, CHR '' '', CHR 0xA0])"

definition trim :: "string \<Rightarrow> string" where
  "trim s = rev (dropWhile is_space (rev (dropWhile is_space s)))"

text \<open>The character class \<^verbatim>\<open>[\d\-]\<close>.\<close>

definition digit_or_dash :: "char \<Rightarrow> bool" where
  "digit_or_dash c = (c \<in> set ''0123456789-'')"


text \<open>\<^verbatim>\<open>/^[\d\-]+(@[cg]\.us)?$/\<close>, the pattern of the public send route.\<close>

definition matches_recipient :: "string \<Rightarrow> bool" where
  "matches_recipient s =
     (takeWhile digit_or_dash s \<noteq> [] \<and>
      (dropWhile digit_or_dash s = [] \<or>
       dropWhile digit_or_dash s = ''@c.us'' \<or> dropWhile digit_or_dash s = ''@g.us''))"

text \<open>A validation error: the field and the message given to \<^verbatim>\<open>withMessage\<close>.\<close>

type_synonym validation_error = "string \<times> string"

text \<open>
  The message is a string of arbitrary content. The white space of \<^verbatim>\<open>\s\<close> among all
  code units, and \<^verbatim>\<open>trim()\<close> on code units.
\<close>

definition is_white_space :: "16 word \<Rightarrow> bool" where
  "is_white_space c =
     (c \<in> set [0x09, 0x0A, 0x0B, 0x0C, 0x0D, 0x20, 0xA0, 0x1680, 0x2028, 0x2029, 0x202F,
               0x205F, 0x3000, 0xFEFF] \<or>
      (0x2000 \<le> c \<and> c \<le> 0x200A))"

definition trim_text :: "utf16 \<Rightarrow> utf16" where
  "trim_text str = rev (dropWhile is_white_space (rev (dropWhile is_white_space str)))"

text \<open>
  \<^verbatim>\<open>isLength\<close> of the validation library does not compare \<^verbatim>\<open>str.length\<close> itself. It
  subtracts the number of matches of \<^verbatim>\<open>/(\uFE0F|\uFE0E)/g\<close> (the variation selectors)
  and the number of matches of \<^verbatim>\<open>/[\uD800-\uDBFF][\uDC00-\uDFFF]/g\<close> (the surrogate
  pairs, found from left to right without overlap), and compares the difference with
  the bounds.
\<close>

definition presentationSequences :: "utf16 \<Rightarrow> nat" where
  "presentationSequences str = length (filter (\<lambda>c. c = 0xFE0F \<or> c = 0xFE0E) str)"

definition high_surrogate :: "16 word \<Rightarrow> bool" where
  "high_surrogate c = (0xD800 \<le> c \<and> c \<le> 0xDBFF)"

definition low_surrogate :: "16 word \<Rightarrow> bool" where
  "low_surrogate c = (0xDC00 \<le> c \<and> c \<le> 0xDFFF)"

fun surrogatePairs :: "utf16 \<Rightarrow> nat" where
  "surrogatePairs (a # b # cs) =
     (if high_surrogate a \<and> low_surrogate b then Suc (surrogatePairs cs)
      else surrogatePairs (b # cs))"
| "surrogatePairs cs = 0"

definition isLength_count :: "utf16 \<Rightarrow> int" where
  "isLength_count str =
     int (length str) - int (presentationSequences str) - int (surrogatePairs str)"

text \<open>\<^verbatim>\<open>isLength({ max: n })\<close>; the lower bound defaults to 0.\<close>

definition isLength_max :: "nat \<Rightarrow> utf16 \<Rightarrow> bool" where
  "isLength_max n str = (0 \<le> isLength_count str \<and> isLength_count str \<le> int n)"

text \<open>The chain of \<^verbatim>\<open>body('message')\<close>, shared by both send routes.\<close>

definition message_errors :: "utf16 \<Rightarrow> validation_error list" where
  "message_errors message =
     (if trim_text message = [] then [(''message'', ''Message cannot be empty'')] else []) @
     (if \<not> isLength_max 4096 (trim_text message)
      then [(''message'', ''Message too long (max 4096 chars)'')] else [])"


definition error_json :: "validation_error \<Rightarrow> jval" where
  "error_json e = JObj [(''path'', JStr (fst e)), (''msg'', JStr (snd e))]"

text \<open>
  The middleware \<^verbatim>\<open>validate\<close>: with errors it answers 400 and the chain stops
  (\<open>Some\<close>); without it calls \<^verbatim>\<open>next()\<close> (\<open>None\<close>).
\<close>

definition validate :: "validation_error list \<Rightarrow> response option" where
  "validate errors =
     (if errors \<noteq> []
      then Some \<lparr>status = 400,
                 body = [(''error'', JStr ''Validation failed''),
                         (''details'', JArr (map error_json errors))]\<rparr>
      else None)"

section \<open>The server's state\<close>

text \<open>The value of \<^verbatim>\<open>clientStates\<close> for a user.\<close>

record client_state =
  qr :: string
  ready :: bool
  chats :: "jval list"

text \<open>
  A row of \<^verbatim>\<open>whatsapp_sessions\<close>, keyed by \<^verbatim>\<open>user_id\<close> (the code reads it with
  \<^verbatim>\<open>.single()\<close>, so a user has at most one row). A null flag is falsy in every test the
  code makes and is modelled as \<open>False\<close>.
\<close>

record session_row =
  webhook_url :: "string option"
  webhook_enabled :: bool
  webhook_secret :: "string option"
  is_connected :: bool

datatype direction = incoming | outgoing

text \<open>A row of \<^verbatim>\<open>webhook_logs\<close>.\<close>

record log_entry =
  user_id :: userId
  direction :: direction
  log_status :: string
  payload :: jval
  log_response :: "jval option"

text \<open>
  The body of an outbound request is the serialisation of a JSON value; the
  constructor stands for \<^verbatim>\<open>JSON.stringify\<close>.
\<close>

datatype http_body = JSON_stringify jval

text \<open>
  The arguments of a \<^verbatim>\<open>fetch\<close> call. \<open>signal\<close> is the option that bounds the
  duration of a request (an abort signal firing after the given number of
  milliseconds); \<open>None\<close> when the call passes no such option.
\<close>

record fetch_init =
  url :: string
  http_method :: string
  headers :: "(string \<times> string) list"
  fetch_body :: http_body
  signal :: "nat option"

text \<open>
  Writes sent to the store: the updates of \<^verbatim>\<open>is_connected\<close> and of the webhook
  configuration (URL, enabled flag as the handler sends it, secret), the insert of a
  row with a webhook configuration and \<^verbatim>\<open>is_connected: false\<close>, and the insert of a
  log entry.
\<close>

datatype store_write =
    UpdateConnected userId bool
  | UpdateConfig userId "string option" jval string
  | InsertConfig userId "string option" jval string
  | InsertLog log_entry

text \<open>
  Every call that leaves the process is recorded, in order: the construction and the
  methods of client objects, outbound HTTP requests, writes to the store.
\<close>

datatype effect =
    NewClient handle userId
  | Initialize handle
  | Logout handle
  | Destroy handle
  | SendMessage handle string utf16
  | Fetch fetch_init
  | StoreWrite store_write

text \<open>
  \<open>timers\<close> holds the callbacks scheduled with \<^verbatim>\<open>setTimeout\<close> that have not run yet:
  the delay and the client the callback will destroy.
\<close>

record server =
  whatsappClients :: "userId \<rightharpoonup> handle"
  clientStates :: "userId \<rightharpoonup> client_state"
  userWebhooks :: "userId \<rightharpoonup> string"
  whatsapp_sessions :: "userId \<rightharpoonup> session_row"
  webhook_logs :: "log_entry list"
  next_client :: handle
  timers :: "(nat \<times> handle) list"
  effects :: "effect list"

definition initial :: server where
  "initial = \<lparr>whatsappClients = Map.empty, clientStates = Map.empty, userWebhooks = Map.empty,
              whatsapp_sessions = Map.empty, webhook_logs = [], next_client = 0,
              timers = [], effects = []\<rparr>"

section \<open>The store\<close>

text \<open>
  A query of supabase-js resolves to \<^verbatim>\<open>{data, error}\<close> and never rejects. Whether the
  store answers is an input of each handler: \<open>Up\<close>, or \<open>Down\<close> with the message of
  the error it returns.
\<close>

datatype store_status = Up | Down string

text \<open>
  \<^verbatim>\<open>select(...).eq('user_id', userId).single()\<close>, of which the callers keep \<^verbatim>\<open>data\<close>
  only: the row, or null when there is none or the query failed.
\<close>

definition select_row :: "server \<Rightarrow> store_status \<Rightarrow> userId \<Rightarrow> session_row option" where
  "select_row s st userId = (case st of Up \<Rightarrow> whatsapp_sessions s userId | Down _ \<Rightarrow> None)"

text \<open>
  Modelled from the spec: the declaration of the table \<^verbatim>\<open>whatsapp_sessions\<close>, which is
  not among the sources. The spec's data model makes \<^verbatim>\<open>enabled\<close> a boolean, so the
  column \<^verbatim>\<open>webhook_enabled\<close> is taken to be a boolean one: the store reads a JSON
  boolean as it is, the numbers 1 and 0 and the usual spellings as the boolean they
  spell, and refuses every other value (\<open>None\<close>).
\<close>

fun as_boolean :: "jval \<Rightarrow> bool option" where
  "as_boolean (JBool b) = Some b"
| "as_boolean (JNum n) = (if n = 1 then Some True else if n = 0 then Some False else None)"
| "as_boolean (JStr str) =
     (if str \<in> set [''true'', ''t'', ''yes'', ''y'', ''on'', ''1''] then Some True
      else if str \<in> set [''false'', ''f'', ''no'', ''n'', ''off'', ''0''] then Some False
      else None)"
| "as_boolean (JText str) =
     (if str \<in> set (map utf16_of [''true'', ''t'', ''yes'', ''y'', ''on'', ''1'']) then Some True
      else if str \<in> set (map utf16_of [''false'', ''f'', ''no'', ''n'', ''off'', ''0''])
      then Some False
      else None)"
| "as_boolean v = None"

text \<open>
  What an accepted write does to the tables, or the message of the error (\<open>Inl\<close>). An
  update of a user without a row changes nothing; an insert for a user who has a row
  violates the key and is refused.
\<close>

fun apply_write :: "store_write \<Rightarrow> server \<Rightarrow> string + server" where
  "apply_write (UpdateConnected u c) s =
     (case whatsapp_sessions s u of
        None \<Rightarrow> Inr s
      | Some r \<Rightarrow> Inr (s\<lparr>whatsapp_sessions := (whatsapp_sessions s)(u \<mapsto> r\<lparr>is_connected := c\<rparr>)\<rparr>))"
| "apply_write (UpdateConfig u wurl en sec) s =
     (case as_boolean en of
        None \<Rightarrow> Inl ''invalid input syntax for type boolean''
      | Some b \<Rightarrow>
          (case whatsapp_sessions s u of
             None \<Rightarrow> Inr s
           | Some r \<Rightarrow>
               Inr (s\<lparr>whatsapp_sessions := (whatsapp_sessions s)
                       (u \<mapsto> r\<lparr>webhook_url := wurl, webhook_enabled := b,
                                webhook_secret := Some sec\<rparr>)\<rparr>)))"
| "apply_write (InsertConfig u wurl en sec) s =
     (case as_boolean en of
        None \<Rightarrow> Inl ''invalid input syntax for type boolean''
      | Some b \<Rightarrow>
          (case whatsapp_sessions s u of
             None \<Rightarrow>
               Inr (s\<lparr>whatsapp_sessions := (whatsapp_sessions s)
                       (u \<mapsto> \<lparr>webhook_url = wurl, webhook_enabled = b,
                               webhook_secret = Some sec, is_connected = False\<rparr>)\<rparr>)
           | Some _ \<Rightarrow> Inl ''duplicate key value violates unique constraint''))"
| "apply_write (InsertLog e) s = Inr (s\<lparr>webhook_logs := webhook_logs s @ [e]\<rparr>)"

text \<open>
  A write: the request is sent; the result is the error, if any, and the state after.
\<close>

definition store_write :: "server \<Rightarrow> store_status \<Rightarrow> store_write \<Rightarrow> string option \<times> server" where
  "store_write s st w =
     (let s1 = s\<lparr>effects := effects s @ [StoreWrite w]\<rparr> in
      case st of
        Down msg \<Rightarrow> (Some msg, s1)
      | Up \<Rightarrow>
          (case apply_write w s1 of
             Inl msg \<Rightarrow> (Some msg, s1)
           | Inr s2 \<Rightarrow> (None, s2)))"

section \<open>Webhook delivery\<close>

text \<open>\<^verbatim>\<open>Number.prototype.toString\<close> on a natural number: its decimal digits.\<close>

fun toString :: "nat \<Rightarrow> string" where
  "toString n =
     (if n < 10 then [''0123456789'' ! n]
      else toString (n div 10) @ [''0123456789'' ! (n mod 10)])"

declare toString.simps [simp del]

text \<open>
  \<^verbatim>\<open>sendToWebhook(userId, webhookData)\<close>. \<open>fetch_result\<close> is what the awaited
  \<^verbatim>\<open>fetch\<close> gives: the status of the response, or a rejection (which the
  \<^verbatim>\<open>catch\<close> block handles). \<open>log_st\<close> is the store's answer to the one insert
  that follows.
\<close>

definition sendToWebhook ::
  "server \<Rightarrow> userId \<Rightarrow> jval \<Rightarrow> nat outcome \<Rightarrow> store_status \<Rightarrow> server" where
  "sendToWebhook s userId webhookData fetch_result log_st =
     (case userWebhooks s userId of
        None \<Rightarrow> s
      | Some webhookUrl \<Rightarrow>
          if webhookUrl = [] then s
          else
            (let s1 = s\<lparr>effects := effects s @
                        [Fetch \<lparr>url = webhookUrl, http_method = ''POST'',
                                headers = [(''Content-Type'', ''application/json'')],
                                fetch_body = JSON_stringify webhookData,
                                signal = None\<rparr>]\<rparr>
             in case fetch_result of
                  Resolved code \<Rightarrow>
                    snd (store_write s1 log_st
                      (InsertLog \<lparr>user_id = userId, direction = incoming,
                                  log_status = toString code, payload = webhookData,
                                  log_response = Some (JObj [(''status'', JNum code)])\<rparr>))
                | Rejected msg \<Rightarrow>
                    snd (store_write s1 log_st
                      (InsertLog \<lparr>user_id = userId, direction = incoming,
                                  log_status = ''failed'', payload = webhookData,
                                  log_response = Some (JObj [(''error'', JStr msg)])\<rparr>))))"

text \<open>
  \<^verbatim>\<open>POST /webhook/test\<close>, a caller of \<^verbatim>\<open>sendToWebhook\<close>; \<open>now\<close> is the time stamp
  put into the payload.
\<close>

definition post_webhook_test ::
  "server \<Rightarrow> userId \<Rightarrow> string \<Rightarrow> nat outcome \<Rightarrow> store_status \<Rightarrow> response \<times> server" where
  "post_webhook_test s userId now fetch_result log_st =
     (let testData = JObj [(''event'', JStr ''test''), (''timestamp'', JStr now),
                           (''message'', JStr ''This is a test webhook from WhatsApp Manager''),
                           (''user_id'', JStr userId)]
      in (\<lparr>status = 200,
           body = [(''success'', JBool True), (''message'', JStr ''Test webhook sent'')]\<rparr>,
          sendToWebhook s userId testData fetch_result log_st))"

section \<open>Creating and tearing down clients\<close>

text \<open>
  \<^verbatim>\<open>getWhatsAppClient(userId)\<close> is an async function with one \<^verbatim>\<open>await\<close> (the query
  for the stored webhook configuration). The event loop runs the code before the
  \<^verbatim>\<open>await\<close> and the code after it as two uninterrupted pieces, and may run other
  handlers in between. \<open>getWhatsAppClient_enter\<close> is the first piece: the test of
  the registry, and when the user has no entry, the new client object and its
  \<^verbatim>\<open>clientStates\<close> entry.
\<close>

datatype entered = Existing handle | Awaiting handle

definition getWhatsAppClient_enter :: "server \<Rightarrow> userId \<Rightarrow> entered \<times> server" where
  "getWhatsAppClient_enter s userId =
     (case whatsappClients s userId of
        Some client \<Rightarrow> (Existing client, s)
      | None \<Rightarrow>
          (let client = next_client s in
           (Awaiting client,
            s\<lparr>next_client := Suc client,
              effects := effects s @ [NewClient client userId],
              clientStates := (clientStates s)
                 (userId \<mapsto> \<lparr>qr = [], ready = False, chats = []\<rparr>)\<rparr>)))"

text \<open>
  The second piece, run when the query has answered with \<open>session\<close>: the webhook
  URL is loaded, the event handlers are attached (they run later, on events of the
  client), the client is initialised and only then stored in the registry.
\<close>

definition getWhatsAppClient_resume ::
  "server \<Rightarrow> userId \<Rightarrow> handle \<Rightarrow> session_row option \<Rightarrow> server" where
  "getWhatsAppClient_resume s userId client session =
     (let s1 = (case session of
                  None \<Rightarrow> s
                | Some row \<Rightarrow>
                    (case webhook_url row of
                       None \<Rightarrow> s
                     | Some wurl \<Rightarrow>
                         if webhook_enabled row \<and> wurl \<noteq> []
                         then s\<lparr>userWebhooks := (userWebhooks s)(userId \<mapsto> wurl)\<rparr>
                         else s))
      in s1\<lparr>effects := effects s1 @ [Initialize client],
            whatsappClients := (whatsappClients s1)(userId \<mapsto> client)\<rparr>)"

text \<open>A call that nothing interrupts: both pieces, one after the other.\<close>

definition getWhatsAppClient :: "server \<Rightarrow> userId \<Rightarrow> store_status \<Rightarrow> handle \<times> server" where
  "getWhatsAppClient s userId read_st =
     (case getWhatsAppClient_enter s userId of
        (Existing client, s1) \<Rightarrow> (client, s1)
      | (Awaiting client, s1) \<Rightarrow>
          (client, getWhatsAppClient_resume s1 userId client (select_row s1 read_st userId)))"

text \<open>
  Several calls in flight. A schedule is the order in which the event loop runs the
  pieces: \<open>Enter k u\<close> starts call \<open>k\<close> for user \<open>u\<close>, \<open>Resume k st\<close> continues
  the suspended call \<open>k\<close> with the store's answer. \<open>suspended\<close> holds the local
  variables of the calls waiting at the \<^verbatim>\<open>await\<close>, \<open>returned\<close> the value each
  finished call returned.
\<close>

datatype sched_event = Enter nat userId | Resume nat store_status

record event_loop =
  srv :: server
  suspended :: "nat \<rightharpoonup> userId \<times> handle"
  returned :: "nat \<rightharpoonup> handle"

fun step :: "event_loop \<Rightarrow> sched_event \<Rightarrow> event_loop" where
  "step c (Enter k userId) =
     (case getWhatsAppClient_enter (srv c) userId of
        (Existing client, s1) \<Rightarrow> c\<lparr>srv := s1, returned := (returned c)(k \<mapsto> client)\<rparr>
      | (Awaiting client, s1) \<Rightarrow>
          c\<lparr>srv := s1, suspended := (suspended c)(k \<mapsto> (userId, client))\<rparr>)"
| "step c (Resume k st) =
     (case suspended c k of
        None \<Rightarrow> c
      | Some (userId, client) \<Rightarrow>
          c\<lparr>srv := getWhatsAppClient_resume (srv c) userId client
                     (select_row (srv c) st userId),
            suspended := (suspended c)(k := None),
            returned := (returned c)(k \<mapsto> client)\<rparr>)"

definition run :: "event_loop \<Rightarrow> sched_event list \<Rightarrow> event_loop" where
  "run c evs = foldl step c evs"

definition idle :: "server \<Rightarrow> event_loop" where
  "idle s = \<lparr>srv = s, suspended = Map.empty, returned = Map.empty\<rparr>"

text \<open>
  \<^verbatim>\<open>POST /logout-whatsapp\<close>. \<open>logout_result\<close> is what \<^verbatim>\<open>client.logout()\<close> gives; a
  rejection is caught by the inner \<^verbatim>\<open>try\<close> and only printed. The result of the
  store update is not looked at. The destruction of the client is scheduled with
  \<^verbatim>\<open>setTimeout(..., 2000)\<close>.
\<close>

definition logout_whatsapp ::
  "server \<Rightarrow> userId \<Rightarrow> unit outcome \<Rightarrow> store_status \<Rightarrow> response \<times> server" where
  "logout_whatsapp s userId logout_result update_st =
     (case whatsappClients s userId of
        None \<Rightarrow>
          (\<lparr>status = 200,
            body = [(''success'', JBool True),
                    (''message'', JStr ''WhatsApp disconnected. You will need to scan QR code again.'')]\<rparr>,
           s)
      | Some client \<Rightarrow>
          (let s1 = (case logout_result of
                       Resolved _ \<Rightarrow> s\<lparr>effects := effects s @ [Logout client]\<rparr>
                     | Rejected logoutErr \<Rightarrow> s\<lparr>effects := effects s @ [Logout client]\<rparr>);
               s2 = s1\<lparr>whatsappClients := (whatsappClients s1)(userId := None),
                       clientStates := (clientStates s1)(userId := None),
                       userWebhooks := (userWebhooks s1)(userId := None)\<rparr>;
               s3 = snd (store_write s2 update_st (UpdateConnected userId False));
               s4 = s3\<lparr>timers := timers s3 @ [(2000, client)]\<rparr>
           in (\<lparr>status = 200,
                body = [(''success'', JBool True),
                        (''message'', JStr ''WhatsApp disconnected. You will need to scan QR code again.'')]\<rparr>,
               s4)))"

text \<open>
  The callback given to \<^verbatim>\<open>setTimeout\<close>, when it runs: \<^verbatim>\<open>client.destroy()\<close> inside a
  \<^verbatim>\<open>try\<close> whose \<^verbatim>\<open>catch\<close> only prints.
\<close>

definition destroy_timer :: "server \<Rightarrow> handle \<Rightarrow> unit outcome \<Rightarrow> server" where
  "destroy_timer s client destroy_result =
     (let s1 = s\<lparr>timers := remove1 (2000, client) (timers s),
                 effects := effects s @ [Destroy client]\<rparr>
      in case destroy_result of Resolved _ \<Rightarrow> s1 | Rejected err \<Rightarrow> s1)"

section \<open>Webhook configuration\<close>

text \<open>\<^verbatim>\<open>x || null\<close> on an optional string: the empty string is falsy.\<close>

definition or_null :: "string option \<Rightarrow> string option" where
  "or_null x = (case x of None \<Rightarrow> None | Some v \<Rightarrow> if v = [] then None else Some v)"

definition json_of :: "string option \<Rightarrow> jval" where
  "json_of x = (case x of None \<Rightarrow> JNull | Some v \<Rightarrow> JStr v)"

text \<open>
  \<^verbatim>\<open>GET /webhook/config\<close>, read with \<^verbatim>\<open>.maybeSingle()\<close>; an error of the store is
  thrown and answered with 500.
\<close>

definition get_webhook_config ::
  "server \<Rightarrow> userId \<Rightarrow> string \<Rightarrow> store_status \<Rightarrow> response \<times> server" where
  "get_webhook_config s userId baseUrl read_st =
     (case read_st of
        Down msg \<Rightarrow>
          (\<lparr>status = 500,
            body = [(''error'', JStr ''Failed to get webhook config''),
                    (''details'', JStr msg)]\<rparr>, s)
      | Up \<Rightarrow>
          (let session = whatsapp_sessions s userId in
           (\<lparr>status = 200,
             body = [(''success'', JBool True),
                     (''webhook_url'',
                        json_of (or_null (case session of None \<Rightarrow> None | Some r \<Rightarrow> webhook_url r))),
                     (''webhook_enabled'',
                        JBool (case session of None \<Rightarrow> False | Some r \<Rightarrow> webhook_enabled r)),
                     (''webhook_secret'',
                        json_of (or_null (case session of None \<Rightarrow> None | Some r \<Rightarrow> webhook_secret r))),
                     (''outgoing_webhook_url'', JStr (baseUrl @ ''/webhook/send/'' @ userId))]\<rparr>,
            s)))"

text \<open>\<^verbatim>\<open>Buffer.toString('hex')\<close>: two lower-case hexadecimal digits for each byte.\<close>

definition hex_digit :: "nat \<Rightarrow> char" where
  "hex_digit n = ''0123456789abcdef'' ! (n mod 16)"

fun toString_hex :: "8 word list \<Rightarrow> string" where
  "toString_hex [] = []"
| "toString_hex (b # bs) =
     hex_digit (unat b div 16) # hex_digit (unat b mod 16) # toString_hex bs"

text \<open>
  \<^verbatim>\<open>crypto.randomBytes(n)\<close>: the next \<open>n\<close> bytes of the system's source of
  randomness, which is an input of the handler.
\<close>

definition randomBytes :: "(nat \<Rightarrow> 8 word) \<Rightarrow> nat \<Rightarrow> 8 word list" where
  "randomBytes entropy n = map entropy [0..<n]"

text \<open>JavaScript's truthiness of a JSON value.\<close>

fun truthy :: "jval \<Rightarrow> bool" where
  "truthy JNull = False"
| "truthy (JBool b) = b"
| "truthy (JNum n) = (n \<noteq> 0)"
| "truthy (JStr str) = (str \<noteq> [])"
| "truthy (JText str) = (str \<noteq> [])"
| "truthy (JArr vs) = True"
| "truthy (JObj fs) = True"

text \<open>\<^verbatim>\<open>webhook_enabled || false\<close> on the optional field.\<close>

definition or_false :: "jval option \<Rightarrow> jval" where
  "or_false x = (case x of None \<Rightarrow> JBool False | Some v \<Rightarrow> if truthy v then v else JBool False)"

text \<open>
  The validation of \<^verbatim>\<open>webhook_enabled\<close>, \<^verbatim>\<open>.optional().isBoolean()\<close>. The library
  validates the string it makes of the value (of each element, when the value is an
  array): \<^verbatim>\<open>String(v)\<close>, the empty string for null, and for a non-empty array the
  string of its first element. \<^verbatim>\<open>isBoolean\<close> accepts the four spellings below. No
  sanitizer follows, so the handler receives the value as it was sent.
\<close>

fun join_comma :: "utf16 list \<Rightarrow> utf16" where
  "join_comma [] = []"
| "join_comma [x] = x"
| "join_comma (x # y # zs) = x @ [0x2C] @ join_comma (y # zs)"

fun js_String :: "jval \<Rightarrow> utf16" where
  "js_String JNull = utf16_of ''null''"
| "js_String (JBool b) = utf16_of (if b then ''true'' else ''false'')"
| "js_String (JNum n) = utf16_of (toString n)"
| "js_String (JStr str) = utf16_of str"
| "js_String (JText str) = str"
| "js_String (JArr vs) = join_comma (map (\<lambda>v. if v = JNull then [] else js_String v) vs)"
| "js_String (JObj fs) = utf16_of ''[object Object]''"

definition toString_shallow :: "jval \<Rightarrow> utf16" where
  "toString_shallow v = (case v of JNull \<Rightarrow> [] | _ \<Rightarrow> js_String v)"

definition toString_field :: "jval \<Rightarrow> utf16" where
  "toString_field v = (case v of JArr (x # xs) \<Rightarrow> toString_shallow x | _ \<Rightarrow> toString_shallow v)"

definition isBoolean :: "utf16 \<Rightarrow> bool" where
  "isBoolean str = (str \<in> set (map utf16_of [''true'', ''false'', ''1'', ''0'']))"

definition enabled_errors :: "jval option \<Rightarrow> validation_error list" where
  "enabled_errors x =
     (case x of
        None \<Rightarrow> []
      | Some v \<Rightarrow>
          concat (map (\<lambda>y. if isBoolean (toString_field y) then []
                            else [(''webhook_enabled'', ''webhook_enabled must be boolean'')])
                      (case v of JArr ys \<Rightarrow> ys | _ \<Rightarrow> [v])))"

text \<open>
  The validation of \<^verbatim>\<open>webhook_url\<close>, \<^verbatim>\<open>.optional().trim().isURL()\<close>; \<open>isURL\<close> is a
  function of the validation library.
\<close>

definition url_errors :: "(string \<Rightarrow> bool) \<Rightarrow> string option \<Rightarrow> validation_error list" where
  "url_errors isURL x =
     (case x of
        None \<Rightarrow> []
      | Some u \<Rightarrow> if isURL (trim u) then [] else [(''webhook_url'', ''Invalid webhook URL'')])"

text \<open>
  The first two characters of the note in the answer: the warning sign U+26A0 and the
  variation selector U+FE0F, as the bytes of their UTF-8 form.
\<close>

definition warning_sign :: string where
  "warning_sign = [CHR 0xE2, CHR 0x9A, CHR 0xA0, CHR 0xEF, CHR 0xB8, CHR 0x8F]"

text \<open>
  The handler of \<^verbatim>\<open>POST /webhook/config\<close>. \<open>body_url\<close> and \<open>body_enabled\<close> are
  the optional fields \<^verbatim>\<open>webhook_url\<close> and \<^verbatim>\<open>webhook_enabled\<close> of the body;
  \<open>secret\<close> is the local \<^verbatim>\<open>webhook_secret\<close>; \<open>entropy\<close> is the source of
  randomness.
\<close>

definition post_webhook_config ::
  "server \<Rightarrow> userId \<Rightarrow> string option \<Rightarrow> jval option \<Rightarrow> (nat \<Rightarrow> 8 word) \<Rightarrow>
   store_status \<Rightarrow> store_status \<Rightarrow> response \<times> server" where
  "post_webhook_config s userId body_url body_enabled entropy read_st write_st =
     (let secret = toString_hex (randomBytes entropy 32);
          wurl = or_null body_url;
          existingSession = select_row s read_st userId;
          result =
            (case existingSession of
               Some _ \<Rightarrow>
                 store_write s write_st
                   (UpdateConfig userId wurl (or_false body_enabled) secret)
             | None \<Rightarrow>
                 store_write s write_st
                   (InsertConfig userId wurl (or_false body_enabled) secret))
      in case fst result of
           Some msg \<Rightarrow>
             (\<lparr>status = 500,
               body = [(''error'', JStr ''Failed to configure webhook''),
                       (''details'', JStr msg)]\<rparr>, snd result)
         | None \<Rightarrow>
             (case (if (case body_enabled of None \<Rightarrow> False | Some v \<Rightarrow> truthy v)
                    then wurl else None) of
                Some u \<Rightarrow>
                  (\<lparr>status = 200,
                    body = [(''success'', JBool True),
                            (''message'', JStr ''Webhook configured successfully''),
                            (''webhook_secret'', JStr secret),
                            (''note'',
                               JStr (warning_sign @
                                     '' Save this secret! You will not see it again.''))]\<rparr>,
                   (snd result)\<lparr>userWebhooks := (userWebhooks (snd result))(userId \<mapsto> u)\<rparr>)
              | None \<Rightarrow>
                  (\<lparr>status = 200,
                    body = [(''success'', JBool True),
                            (''message'', JStr ''Webhook configured successfully'')]\<rparr>,
                   (snd result)\<lparr>userWebhooks := (userWebhooks (snd result))(userId := None)\<rparr>)))"

text \<open>
  The route from its validation chains on: \<^verbatim>\<open>validate\<close> answers 400 or lets the
  handler run, on the trimmed URL and the flag as sent.
\<close>

definition webhook_config_route ::
  "(string \<Rightarrow> bool) \<Rightarrow> server \<Rightarrow> userId \<Rightarrow> string option \<Rightarrow> jval option \<Rightarrow>
   (nat \<Rightarrow> 8 word) \<Rightarrow> store_status \<Rightarrow> store_status \<Rightarrow> response \<times> server" where
  "webhook_config_route isURL s userId body_url body_enabled entropy read_st write_st =
     (case validate (url_errors isURL body_url @ enabled_errors body_enabled) of
        Some r \<Rightarrow> (r, s)
      | None \<Rightarrow>
          post_webhook_config s userId (map_option trim body_url) body_enabled entropy
            read_st write_st)"

section \<open>Sending messages\<close>



text \<open>
  The handler of the public route \<^verbatim>\<open>POST /webhook/send/:userId\<close>. \<open>read_st\<close> is
  the store's answer to the query for the user's row, \<open>send_result\<close> what
  \<^verbatim>\<open>client.sendMessage\<close> gives, \<open>log_st\<close> the store's answer to the insert into
  \<^verbatim>\<open>webhook_logs\<close>.
\<close>

definition not_enabled :: response where
  "not_enabled =
     \<lparr>status = 403,
      body = [(''success'', JBool False),
              (''error'', JStr ''Webhook not enabled for this user'')]\<rparr>"

definition invalid_secret :: response where
  "invalid_secret =
     \<lparr>status = 401,
      body = [(''success'', JBool False), (''error'', JStr ''Invalid webhook secret'')]\<rparr>"

definition webhook_send ::
  "server \<Rightarrow> userId \<Rightarrow> string \<Rightarrow> utf16 \<Rightarrow> string \<Rightarrow> store_status \<Rightarrow> unit outcome \<Rightarrow>
   store_status \<Rightarrow> response \<times> server" where
  "webhook_send s userId to message secret read_st send_result log_st =
     (case select_row s read_st userId of
        None \<Rightarrow> (not_enabled, s)
      | Some session \<Rightarrow>
          if \<not> webhook_enabled session then (not_enabled, s)
          else if webhook_secret session \<noteq> Some secret then (invalid_secret, s)
          else if to = [] \<or> message = []
          then (\<lparr>status = 400,
                 body = [(''success'', JBool False),
                         (''error'', JStr ''Required fields: to, message, secret'')]\<rparr>, s)
          else
            (case whatsappClients s userId of
               None \<Rightarrow>
                 (\<lparr>status = 503,
                   body = [(''success'', JBool False),
                           (''error'', JStr ''WhatsApp not connected for this user'')]\<rparr>, s)
             | Some client \<Rightarrow>
                 (let chatId = (if CHR ''@'' \<in> set to then to else to @ ''@c.us'');
                      s1 = s\<lparr>effects := effects s @ [SendMessage client chatId message]\<rparr>
                  in case send_result of
                       Rejected msg \<Rightarrow>
                         (\<lparr>status = 500,
                           body = [(''success'', JBool False), (''error'', JStr msg)]\<rparr>, s1)
                     | Resolved _ \<Rightarrow>
                         (\<lparr>status = 200,
                           body = [(''success'', JBool True),
                                   (''message'', JStr ''Message sent successfully''),
                                   (''to'', JStr chatId)]\<rparr>,
                          snd (store_write s1 log_st
                            (InsertLog \<lparr>user_id = userId, direction = outgoing,
                                        log_status = ''success'',
                                        payload = JObj [(''to'', JStr to),
                                                        (''message'', JText message)],
                                        log_response = None\<rparr>))))))"

text \<open>The chains of \<^verbatim>\<open>body('to')\<close> and \<^verbatim>\<open>body('secret')\<close> of the public route.\<close>

definition to_errors :: "string \<Rightarrow> validation_error list" where
  "to_errors to =
     (if trim to = [] then [(''to'', ''Recipient is required'')] else []) @
     (if \<not> matches_recipient (trim to)
      then [(''to'', ''Invalid phone number format'')] else [])"

definition secret_errors :: "string \<Rightarrow> validation_error list" where
  "secret_errors secret = (if secret = [] then [(''secret'', ''Secret is required'')] else [])"

text \<open>
  The public route from its validation chains on. \<open>isUUID\<close> is the validator of
  the path parameter, a function of the validation library.
\<close>

definition post_webhook_send ::
  "(string \<Rightarrow> bool) \<Rightarrow> server \<Rightarrow> userId \<Rightarrow> string \<Rightarrow> utf16 \<Rightarrow> string \<Rightarrow> store_status \<Rightarrow>
   unit outcome \<Rightarrow> store_status \<Rightarrow> response \<times> server" where
  "post_webhook_send isUUID s userId to message secret read_st send_result log_st =
     (case validate ((if \<not> isUUID userId then [(''userId'', ''Invalid user ID'')] else []) @
                     to_errors to @ message_errors message @ secret_errors secret) of
        Some r \<Rightarrow> (r, s)
      | None \<Rightarrow>
          webhook_send s userId (trim to) (trim_text message) secret read_st send_result log_st)"

text \<open>The messages a state has dispatched to clients, in order.\<close>

definition dispatched :: "server \<Rightarrow> (handle \<times> string \<times> utf16) list" where
  "dispatched s =
     concat (map (\<lambda>e. case e of SendMessage h c m \<Rightarrow> [(h, c, m)] | _ \<Rightarrow> []) (effects s))"

text \<open>The requests a state has sent to webhook endpoints, in order.\<close>

definition fetched :: "server \<Rightarrow> fetch_init list" where
  "fetched s = concat (map (\<lambda>e. case e of Fetch r \<Rightarrow> [r] | _ \<Rightarrow> []) (effects s))"

section \<open>Example states\<close>

text \<open>
  A state in which user \<^verbatim>\<open>u1\<close> has a client in the registry and a stored webhook
  configuration that is enabled, and the same state with the configuration disabled.
\<close>

definition enabled_row :: session_row where
  "enabled_row =
     \<lparr>webhook_url = Some ''https://example.com/hook'', webhook_enabled = True,
      webhook_secret = Some ''right'', is_connected = True\<rparr>"

definition connected :: server where
  "connected =
     \<lparr>whatsappClients = [''u1'' \<mapsto> 0],
      clientStates = [''u1'' \<mapsto> \<lparr>qr = [], ready = True, chats = []\<rparr>],
      userWebhooks = [''u1'' \<mapsto> ''https://example.com/hook''],
      whatsapp_sessions = [''u1'' \<mapsto> enabled_row],
      webhook_logs = [], next_client = 1, timers = [],
      effects = [NewClient 0 ''u1'', Initialize 0]\<rparr>"

definition switched_off :: server where
  "switched_off =
     connected\<lparr>whatsapp_sessions := [''u1'' \<mapsto> enabled_row\<lparr>webhook_enabled := False\<rparr>]\<rparr>"

text \<open>
  A user who has saved an enabled webhook configuration and has no client in the
  registry (the status page was never opened, or the user has logged out).
\<close>

definition configured_only :: server where
  "configured_only = initial\<lparr>whatsapp_sessions := [''u1'' \<mapsto> enabled_row]\<rparr>"

text \<open>A source of randomness, and the message \<^verbatim>\<open>hi\<close>.\<close>

definition example_entropy :: "nat \<Rightarrow> 8 word" where
  "example_entropy i = 0x5a"

definition hi :: utf16 where
  "hi = [0x68, 0x69]"

section \<open>Validation of the send route\<close>






lemma presentationSequences_surrogatePairs_le:
  "presentationSequences str + surrogatePairs str \<le> length str"
proof (induction str rule: surrogatePairs.induct)
  case (1 a b cs)
  have "high_surrogate a \<Longrightarrow> a \<noteq> 0xFE0F \<and> a \<noteq> 0xFE0E"
    by (auto simp: high_surrogate_def)
  moreover have "low_surrogate b \<Longrightarrow> b \<noteq> 0xFE0F \<and> b \<noteq> 0xFE0E"
    by (auto simp: low_surrogate_def)
  ultimately show ?case
    using 1 by (auto simp: presentationSequences_def)
qed (simp_all add: presentationSequences_def)

lemma isLength_count_bounds: "0 \<le> isLength_count str" "isLength_count str \<le> int (length str)"
  using presentationSequences_surrogatePairs_le [of str]
  by (simp_all add: isLength_count_def)





lemma message_errors_iff:
  "message_errors m = [] \<longleftrightarrow>
     trim_text m \<noteq> [] \<and> isLength_count (trim_text m) \<le> 4096"
  by (simp add: message_errors_def isLength_max_def isLength_count_bounds(1))





section \<open>The public send route\<close>

lemma effects_store_write: "effects (snd (store_write s st w)) = effects s @ [StoreWrite w]"
proof (cases st)
  case Up
  show ?thesis
  proof (cases w)
    case (UpdateConfig u wurl en sec)
    with Up show ?thesis
      by (simp add: store_write_def Let_def split: option.splits)
  next
    case (InsertConfig u wurl en sec)
    with Up show ?thesis
      by (simp add: store_write_def Let_def split: option.splits)
  qed (simp_all add: Up store_write_def Let_def split: option.splits)
next
  case (Down msg)
  then show ?thesis by (simp add: store_write_def Let_def)
qed

lemma dispatched_store_write: "dispatched (snd (store_write s st w)) = dispatched s"
  by (simp add: dispatched_def effects_store_write)

lemma dispatched_append:
  "dispatched (s\<lparr>effects := effects s @ [SendMessage h c m]\<rparr>) = dispatched s @ [(h, c, m)]"
  by (simp add: dispatched_def)

lemma valid_fields:
  assumes "to_errors to = []" and "message_errors message = []"
  shows "trim to \<noteq> []" and "trim_text message \<noteq> []"
  using assms by (auto simp: to_errors_def message_errors_def split: if_splits)

lemma route_valid:
  assumes "isUUID u" and "to_errors to = []" and "message_errors message = []"
    and "secret \<noteq> []"
  shows "post_webhook_send isUUID s u to message secret rd sr lg =
         webhook_send s u (trim to) (trim_text message) secret rd sr lg"
  using assms by (simp add: post_webhook_send_def validate_def secret_errors_def)

lemma example_fields:
  "to_errors ''15551234567'' = []" "message_errors hi = []"
  "trim ''15551234567'' = ''15551234567''" "trim_text hi = hi"
proof -
  show t: "trim_text hi = hi"
    by (simp add: hi_def trim_text_def is_white_space_def)
  have "isLength_count hi = 2"
    by (simp add: hi_def isLength_count_def presentationSequences_def high_surrogate_def)
  then show "message_errors hi = []"
    by (simp add: message_errors_def isLength_max_def t) (simp add: hi_def)
qed (simp_all add: to_errors_def trim_def is_space_def matches_recipient_def digit_or_dash_def)

lemma hi_nonempty: "hi \<noteq> []"
  by (simp add: hi_def)

lemma example_rows:
  "select_row connected Up ''u1'' = Some enabled_row"
  "select_row switched_off Up ''u1'' = Some (enabled_row\<lparr>webhook_enabled := False\<rparr>)"
  "select_row configured_only Up ''u1'' = Some enabled_row"
  "select_row initial Up ''u1'' = None"
  by (simp_all add: select_row_def connected_def switched_off_def configured_only_def initial_def)

text \<open>
  C3, as stated, fails twice. With the webhook disabled, a wrong secret is answered
  with 403, not 401: the handler tests the enabled flag before it compares secrets.
  With the webhook enabled and the right secret, a user without a client in the
  registry is answered with 503 and nothing is dispatched.
\<close>

theorem wrong_secret_while_disabled_is_403:
  "webhook_secret (enabled_row\<lparr>webhook_enabled := False\<rparr>) \<noteq> Some ''wrong'' \<and>
   status (fst (webhook_send switched_off ''u1'' ''15551234567'' hi ''wrong''
                  Up (Resolved ()) Up)) = 403 \<and>
   webhook_secret enabled_row = Some ''right'' \<and> webhook_enabled enabled_row \<and>
   status (fst (webhook_send configured_only ''u1'' ''15551234567'' hi ''right''
                  Up (Resolved ()) Up)) = 503 \<and>
   dispatched (snd (webhook_send configured_only ''u1'' ''15551234567'' hi ''right''
                  Up (Resolved ()) Up)) = []"
  by (simp add: webhook_send_def example_rows not_enabled_def enabled_row_def hi_nonempty)
     (simp add: configured_only_def initial_def dispatched_def)

text \<open>
  C3 (amended): for a request to \<^verbatim>\<open>POST /webhook/send/:userId\<close> whose fields pass
  validation: when the user has no stored row or the stored enabled flag is false, the
  status is 403 and nothing is dispatched, whatever the secret; when the flag is true
  and the supplied secret differs from the stored one, the status is 401 and nothing is
  dispatched; when the flag is true, the secret matches and the user has no client in
  the registry, the status is 503 and nothing is dispatched; when the flag is true, the
  secret matches and the user has a client, exactly one message is dispatched to that
  client, with chatId the trimmed \<^verbatim>\<open>to\<close> when it contains \<^verbatim>\<open>@\<close> and the trimmed
  \<^verbatim>\<open>to\<close> followed by \<^verbatim>\<open>@c.us\<close> otherwise.
\<close>

theorem public_send_outcomes:
  assumes "isUUID u" and "to_errors to = []" and "message_errors message = []"
    and "secret \<noteq> []"
  shows
    "((select_row s rd u = None \<or>
       (\<exists>row. select_row s rd u = Some row \<and> \<not> webhook_enabled row)) \<longrightarrow>
        status (fst (post_webhook_send isUUID s u to message secret rd sr lg)) = 403 \<and>
        snd (post_webhook_send isUUID s u to message secret rd sr lg) = s) \<and>
     (select_row s rd u = Some row \<and> webhook_enabled row \<and>
      webhook_secret row \<noteq> Some secret \<longrightarrow>
        status (fst (post_webhook_send isUUID s u to message secret rd sr lg)) = 401 \<and>
        snd (post_webhook_send isUUID s u to message secret rd sr lg) = s) \<and>
     (select_row s rd u = Some row \<and> webhook_enabled row \<and>
      webhook_secret row = Some secret \<and> whatsappClients s u = None \<longrightarrow>
        status (fst (post_webhook_send isUUID s u to message secret rd sr lg)) = 503 \<and>
        snd (post_webhook_send isUUID s u to message secret rd sr lg) = s) \<and>
     (select_row s rd u = Some row \<and> webhook_enabled row \<and>
      webhook_secret row = Some secret \<and> whatsappClients s u = Some client \<longrightarrow>
        dispatched (snd (post_webhook_send isUUID s u to message secret rd sr lg)) =
          dispatched s @
            [(client,
              if CHR ''@'' \<in> set (trim to) then trim to else trim to @ ''@c.us'',
              trim_text message)])"
proof -
  have r: "post_webhook_send isUUID s u to message secret rd sr lg =
      webhook_send s u (trim to) (trim_text message) secret rd sr lg"
    using assms by (rule route_valid)
  note v = valid_fields [OF assms(2,3)]
  show ?thesis
    unfolding r
    using v
    by (cases sr)
       (auto simp: webhook_send_def not_enabled_def invalid_secret_def Let_def
          dispatched_store_write dispatched_append)
qed

theorem public_send_outcomes_witness:
  "to_errors ''15551234567'' = [] \<and> message_errors hi = [] \<and>
   dispatched (snd (post_webhook_send (\<lambda>x. True) connected ''u1'' ''15551234567'' hi
                      ''right'' Up (Resolved ()) Up)) = [(0, ''15551234567@c.us'', hi)] \<and>
   status (fst (post_webhook_send (\<lambda>x. True) connected ''u1'' ''15551234567'' hi
                      ''wrong'' Up (Resolved ()) Up)) = 401 \<and>
   status (fst (post_webhook_send (\<lambda>x. True) switched_off ''u1'' ''15551234567'' hi
                      ''right'' Up (Resolved ()) Up)) = 403 \<and>
   status (fst (post_webhook_send (\<lambda>x. True) configured_only ''u1'' ''15551234567'' hi
                      ''right'' Up (Resolved ()) Up)) = 503"
proof -
  have u: "(\<lambda>x. True) ''u1''" by simp
  have ne: "''right'' \<noteq> []" "''wrong'' \<noteq> []" by simp_all
  have reg: "whatsappClients connected ''u1'' = Some 0"
      "whatsappClients configured_only ''u1'' = None" "dispatched connected = []"
    by (simp_all add: connected_def configured_only_def initial_def dispatched_def)
  have row: "webhook_enabled enabled_row" "webhook_secret enabled_row = Some ''right''"
      "\<not> webhook_enabled (enabled_row\<lparr>webhook_enabled := False\<rparr>)"
    by (simp_all add: enabled_row_def)
  show ?thesis
    using example_fields example_rows reg row
      public_send_outcomes [OF u example_fields(1,2) ne(1), where s = connected and rd = Up
        and row = enabled_row and client = 0 and sr = "Resolved ()" and lg = Up]
      public_send_outcomes [OF u example_fields(1,2) ne(2), where s = connected and rd = Up
        and row = enabled_row and sr = "Resolved ()" and lg = Up]
      public_send_outcomes [OF u example_fields(1,2) ne(1), where s = switched_off and rd = Up
        and sr = "Resolved ()" and lg = Up]
      public_send_outcomes [OF u example_fields(1,2) ne(1), where s = configured_only
        and rd = Up and row = enabled_row and sr = "Resolved ()" and lg = Up]
    by simp
qed

text \<open>
  C6, as stated, at two requests with the same wrong secret, one to a user whose
  webhook is disabled and one to a user whose webhook is enabled: the bodies of the two
  answers differ, so the caller learns which check failed.
\<close>

theorem authorization_failures_differ:
  "body (fst (webhook_send switched_off ''u1'' ''15551234567'' hi ''wrong''
                Up (Resolved ()) Up)) \<noteq>
   body (fst (webhook_send connected ''u1'' ''15551234567'' hi ''wrong''
                Up (Resolved ()) Up))"
  by (simp add: webhook_send_def example_rows not_enabled_def invalid_secret_def enabled_row_def
      hi_nonempty)

text \<open>
  C6 (amended): on the public send endpoint a user without stored configuration and a
  user whose webhook is not enabled get the same answer, status 403 with the error
  \<^verbatim>\<open>Webhook not enabled for this user\<close>, whatever the secret, so these two failures
  cannot be told apart; a secret mismatch on an enabled webhook gets status 401 with the
  error \<^verbatim>\<open>Invalid webhook secret\<close>, a different body, so a caller can tell a wrong
  secret from a disabled or missing configuration. No failure changes the state.
\<close>

theorem authorization_failure_responses:
  "(select_row s1 rd1 u1 = None \<longrightarrow>
      webhook_send s1 u1 to1 m1 sec1 rd1 sr1 lg1 = (not_enabled, s1)) \<and>
   (select_row s2 rd2 u2 = Some row2 \<and> \<not> webhook_enabled row2 \<longrightarrow>
      webhook_send s2 u2 to2 m2 sec2 rd2 sr2 lg2 = (not_enabled, s2)) \<and>
   (select_row s3 rd3 u3 = Some row3 \<and> webhook_enabled row3 \<and>
    webhook_secret row3 \<noteq> Some sec3 \<longrightarrow>
      webhook_send s3 u3 to3 m3 sec3 rd3 sr3 lg3 = (invalid_secret, s3)) \<and>
   body not_enabled \<noteq> body invalid_secret \<and>
   status not_enabled = 403 \<and> status invalid_secret = 401"
  by (simp add: webhook_send_def not_enabled_def invalid_secret_def)

theorem authorization_failure_responses_witness:
  "select_row initial Up ''u1'' = None \<and>
   webhook_send initial ''u1'' ''15551234567'' hi ''wrong'' Up (Resolved ()) Up =
     (not_enabled, initial) \<and>
   webhook_send switched_off ''u1'' ''15551234567'' hi ''right'' Up (Resolved ()) Up =
     (not_enabled, switched_off) \<and>
   webhook_send connected ''u1'' ''15551234567'' hi ''wrong'' Up (Resolved ()) Up =
     (invalid_secret, connected)"
proof -
  have row: "\<not> webhook_enabled (enabled_row\<lparr>webhook_enabled := False\<rparr>)"
      "webhook_enabled enabled_row" "webhook_secret enabled_row \<noteq> Some ''wrong''"
    by (simp_all add: enabled_row_def)
  show ?thesis
    using example_rows row
      authorization_failure_responses [where ?s1.0 = initial and ?rd1.0 = Up and ?u1.0 = "''u1''"
        and ?to1.0 = "''15551234567''" and ?m1.0 = hi and ?sec1.0 = "''wrong''"
        and ?sr1.0 = "Resolved ()" and ?lg1.0 = Up
        and ?s2.0 = switched_off and ?rd2.0 = Up and ?u2.0 = "''u1''"
        and ?row2.0 = "enabled_row\<lparr>webhook_enabled := False\<rparr>"
        and ?to2.0 = "''15551234567''" and ?m2.0 = hi and ?sec2.0 = "''right''"
        and ?sr2.0 = "Resolved ()" and ?lg2.0 = Up
        and ?s3.0 = connected and ?rd3.0 = Up and ?u3.0 = "''u1''" and ?row3.0 = enabled_row
        and ?to3.0 = "''15551234567''" and ?m3.0 = hi and ?sec3.0 = "''wrong''"
        and ?sr3.0 = "Resolved ()" and ?lg3.0 = Up]
    by simp
qed

section \<open>Delivery to the user's webhook\<close>

lemma fetched_store_write: "fetched (snd (store_write s st w)) = fetched s"
  by (simp add: fetched_def effects_store_write)

lemma toString_404: "toString 404 = ''404''"
  by (simp add: toString.simps)

text \<open>
  C5: \<^verbatim>\<open>sendToWebhook\<close> does nothing when \<^verbatim>\<open>userWebhooks\<close> has no URL for the user.
  With a URL it sends exactly one HTTP POST to it, whose body is the serialised payload,
  and then exactly one insert into \<^verbatim>\<open>webhook_logs\<close>, of an entry for this user and
  payload whose status is the status of the response, or \<^verbatim>\<open>failed\<close> when the request
  was rejected; the entry is in the table when the store accepts the insert. This is all
  that happens whether the request succeeded or not (no second request), and a caller
  such as \<^verbatim>\<open>POST /webhook/test\<close> answers 200 in every case. The URL is in
  \<^verbatim>\<open>userWebhooks\<close> after every successful \<^verbatim>\<open>POST /webhook/config\<close> that enables the
  webhook with a URL.
\<close>

theorem sendToWebhook_delivery:
  "(userWebhooks s1 u1 = None \<or> userWebhooks s1 u1 = Some [] \<longrightarrow>
      sendToWebhook s1 u1 p1 fr1 st1 = s1) \<and>
   (userWebhooks s u = Some w \<and> w \<noteq> [] \<longrightarrow>
      (\<exists>r e. effects (sendToWebhook s u p fr st) =
                 effects s @ [Fetch r, StoreWrite (InsertLog e)] \<and>
         url r = w \<and> http_method r = ''POST'' \<and> fetch_body r = JSON_stringify p \<and>
         user_id e = u \<and> direction e = incoming \<and> payload e = p \<and>
         log_status e = (case fr of Resolved c \<Rightarrow> toString c | Rejected msg \<Rightarrow> ''failed'') \<and>
         webhook_logs (sendToWebhook s u p fr st) =
           (case st of Up \<Rightarrow> webhook_logs s @ [e] | Down msg \<Rightarrow> webhook_logs s)) \<and>
      status (fst (post_webhook_test s u now fr st)) = 200) \<and>
   (status (fst (post_webhook_config s0 u0 (Some w0) (Some (JBool True)) en rs ws)) = 200 \<and> w0 \<noteq> [] \<longrightarrow>
      userWebhooks (snd (post_webhook_config s0 u0 (Some w0) (Some (JBool True)) en rs ws)) u0 = Some w0)"
proof -
  have "sendToWebhook s1 u1 p1 fr1 st1 = s1"
    if "userWebhooks s1 u1 = None \<or> userWebhooks s1 u1 = Some []"
    using that by (auto simp: sendToWebhook_def)
  moreover have "(\<exists>r e. effects (sendToWebhook s u p fr st) =
                 effects s @ [Fetch r, StoreWrite (InsertLog e)] \<and>
         url r = w \<and> http_method r = ''POST'' \<and> fetch_body r = JSON_stringify p \<and>
         user_id e = u \<and> direction e = incoming \<and> payload e = p \<and>
         log_status e = (case fr of Resolved c \<Rightarrow> toString c | Rejected msg \<Rightarrow> ''failed'') \<and>
         webhook_logs (sendToWebhook s u p fr st) =
           (case st of Up \<Rightarrow> webhook_logs s @ [e] | Down msg \<Rightarrow> webhook_logs s)) \<and>
      status (fst (post_webhook_test s u now fr st)) = 200"
    if "userWebhooks s u = Some w \<and> w \<noteq> []"
    using that
    by (cases fr; cases st)
       (auto simp: sendToWebhook_def store_write_def post_webhook_test_def Let_def)
  moreover have
    "userWebhooks (snd (post_webhook_config s0 u0 (Some w0) (Some (JBool True)) en rs ws)) u0 = Some w0"
    if "status (fst (post_webhook_config s0 u0 (Some w0) (Some (JBool True)) en rs ws)) = 200 \<and> w0 \<noteq> []"
    using that
    by (cases rs; cases ws; cases "whatsapp_sessions s0 u0")
       (auto simp: post_webhook_config_def store_write_def select_row_def or_null_def
             or_false_def Let_def split: option.splits if_splits)
  ultimately show ?thesis by blast
qed

theorem sendToWebhook_delivery_witness:
  "userWebhooks initial ''u2'' = None \<and>
   sendToWebhook initial ''u2'' (JStr ''ping'') (Resolved 404) Up = initial \<and>
   userWebhooks connected ''u1'' = Some ''https://example.com/hook'' \<and>
   map log_status (webhook_logs (sendToWebhook connected ''u1'' (JStr ''ping'') (Resolved 404) Up))
     = [''404''] \<and>
   map log_status (webhook_logs (sendToWebhook connected ''u1'' (JStr ''ping'')
                                   (Rejected ''fetch failed'') Up))
     = [''failed''] \<and>
   length (fetched (sendToWebhook connected ''u1'' (JStr ''ping'') (Rejected ''fetch failed'') Up))
     = 1 \<and>
   status (fst (post_webhook_config initial ''u1'' (Some ''https://example.com/hook'')
                  (Some (JBool True)) example_entropy Up Up)) = 200 \<and>
   userWebhooks (snd (post_webhook_config initial ''u1'' (Some ''https://example.com/hook'')
                  (Some (JBool True)) example_entropy Up Up)) ''u1'' = Some ''https://example.com/hook''"
proof -
  have c: "status (fst (post_webhook_config initial ''u1'' (Some ''https://example.com/hook'')
                  (Some (JBool True)) example_entropy Up Up)) = 200"
    by (simp add: post_webhook_config_def initial_def select_row_def store_write_def
        or_null_def or_false_def Let_def)
  have h: "userWebhooks initial ''u2'' = None"
      "userWebhooks connected ''u1'' = Some ''https://example.com/hook''"
      "''https://example.com/hook'' \<noteq> []"
      "webhook_logs connected = []" "effects connected = [NewClient 0 ''u1'', Initialize 0]"
    by (simp_all add: initial_def connected_def)
  note t = sendToWebhook_delivery [where ?s1.0 = initial and ?u1.0 = "''u2''"
      and ?p1.0 = "JStr ''ping''" and ?fr1.0 = "Resolved 404" and ?st1.0 = Up
      and s = connected and u = "''u1''" and w = "''https://example.com/hook''"
      and p = "JStr ''ping''" and st = Up and now = "[]"
      and ?s0.0 = initial and ?u0.0 = "''u1''" and ?w0.0 = "''https://example.com/hook''"
      and en = example_entropy and rs = Up and ws = Up]
  from t [where fr = "Resolved 404"] h
  have a: "sendToWebhook initial ''u2'' (JStr ''ping'') (Resolved 404) Up = initial"
      "map log_status (webhook_logs (sendToWebhook connected ''u1'' (JStr ''ping'')
         (Resolved 404) Up)) = [''404'']"
    by (auto simp: toString_404)
  from t [where fr = "Rejected ''fetch failed''"] h
  have b: "map log_status (webhook_logs (sendToWebhook connected ''u1'' (JStr ''ping'')
         (Rejected ''fetch failed'') Up)) = [''failed'']"
      "length (fetched (sendToWebhook connected ''u1'' (JStr ''ping'')
         (Rejected ''fetch failed'') Up)) = 1"
    by (auto simp: fetched_def)
  from t [where fr = "Resolved 404"] c
  have d: "userWebhooks (snd (post_webhook_config initial ''u1'' (Some ''https://example.com/hook'')
                  (Some (JBool True)) example_entropy Up Up)) ''u1'' = Some ''https://example.com/hook''"
    by simp
  from h a b c d show ?thesis by simp
qed

text \<open>
  C7, as stated, at a delivery to the webhook of user \<^verbatim>\<open>u1\<close>: the one request sent
  carries no abort signal, hence no timeout.
\<close>

theorem delivery_without_timeout:
  "map signal (fetched (sendToWebhook connected ''u1'' (JStr ''ping'') (Resolved 200) Up)) =
     [None]"
  by (simp add: sendToWebhook_def connected_def store_write_def fetched_def)

text \<open>
  C7 (amended): every outbound webhook delivery performed by \<^verbatim>\<open>sendToWebhook\<close> issues
  its HTTP POST without a timeout: the options passed to \<^verbatim>\<open>fetch\<close> are the method, the
  content-type header and the body, and no abort signal, so the code sets no bound on how
  long a delivery attempt waits for the external endpoint.
\<close>

theorem sendToWebhook_sets_no_timeout:
  "userWebhooks s u = Some w \<Longrightarrow> w \<noteq> [] \<Longrightarrow>
   map signal (fetched (sendToWebhook s u p fr st)) = map signal (fetched s) @ [None]"
  by (cases fr) (simp_all add: sendToWebhook_def fetched_store_write, simp_all add: fetched_def)

theorem sendToWebhook_sets_no_timeout_witness:
  "userWebhooks connected ''u1'' = Some ''https://example.com/hook'' \<and>
   map signal (fetched (sendToWebhook connected ''u1'' (JStr ''ping'')
                          (Rejected ''fetch failed'') (Down ''unavailable''))) = [None]"
proof -
  have h: "userWebhooks connected ''u1'' = Some ''https://example.com/hook''"
      "''https://example.com/hook'' \<noteq> []" "fetched connected = []"
    by (simp_all add: connected_def fetched_def)
  show ?thesis
    using h sendToWebhook_sets_no_timeout [OF h(1,2), of "JStr ''ping''"
        "Rejected ''fetch failed''" "Down ''unavailable''"]
    by simp
qed

section \<open>Logout\<close>

text \<open>
  C10: \<^verbatim>\<open>POST /logout-whatsapp\<close> for a user without an entry in the registry answers
  200 with \<^verbatim>\<open>success: true\<close> and leaves the whole state as it was: the registry, the
  client states, the webhook map and the store, with no call to any client and no write.
\<close>

theorem logout_without_session:
  "whatsappClients s u = None \<Longrightarrow>
   status (fst (logout_whatsapp s u lr st)) = 200 \<and>
   map_of (body (fst (logout_whatsapp s u lr st))) ''success'' = Some (JBool True) \<and>
   snd (logout_whatsapp s u lr st) = s"
  by (simp add: logout_whatsapp_def)

theorem logout_without_session_witness:
  "whatsappClients connected ''u2'' = None \<and>
   status (fst (logout_whatsapp connected ''u2'' (Resolved ()) Up)) = 200 \<and>
   snd (logout_whatsapp connected ''u2'' (Resolved ()) Up) = connected"
proof -
  have h: "whatsappClients connected ''u2'' = None"
    by (simp add: connected_def)
  show ?thesis
    using h logout_without_session [OF h, of "Resolved ()" Up] by simp
qed

section \<open>Teardown and a new client\<close>

text \<open>
  Client identities in the registry, and those held by calls suspended at the
  \<^verbatim>\<open>await\<close>, were all handed out before: they lie below \<open>next_client\<close>. This holds
  at the start and every piece of \<^verbatim>\<open>getWhatsAppClient\<close> and every logout keeps it.
\<close>

lemma getWhatsAppClient_existing:
  "whatsappClients s u = Some h \<Longrightarrow> getWhatsAppClient s u rd = (h, s)"
  by (simp add: getWhatsAppClient_def getWhatsAppClient_enter_def)

lemma next_client_resume:
  "next_client (getWhatsAppClient_resume s u h row) = next_client s"
  by (simp add: getWhatsAppClient_resume_def Let_def split: option.splits)

lemma registry_resume:
  "whatsappClients (getWhatsAppClient_resume s u h row) = (whatsappClients s)(u \<mapsto> h)"
  by (simp add: getWhatsAppClient_resume_def Let_def split: option.splits)

lemma step_allocated:
  assumes "\<forall>v k. whatsappClients (srv c) v = Some k \<longrightarrow> k < next_client (srv c)"
    and "\<forall>j v k. suspended c j = Some (v, k) \<longrightarrow> k < next_client (srv c)"
  shows "(\<forall>v k. whatsappClients (srv (step c ev)) v = Some k \<longrightarrow>
            k < next_client (srv (step c ev))) \<and>
         (\<forall>j v k. suspended (step c ev) j = Some (v, k) \<longrightarrow>
            k < next_client (srv (step c ev)))"
proof (cases ev)
  case (Enter j u)
  show ?thesis
  proof (cases "whatsappClients (srv c) u")
    case None
    with Enter assms show ?thesis
      by (auto simp: getWhatsAppClient_enter_def Let_def less_Suc_eq)
  next
    case (Some h)
    with Enter assms show ?thesis
      by (auto simp: getWhatsAppClient_enter_def)
  qed
next
  case (Resume j st)
  show ?thesis
  proof (cases "suspended c j")
    case None
    with Resume assms show ?thesis by simp
  next
    case (Some p)
    obtain u h where p: "p = (u, h)" by (cases p)
    with Some Resume assms show ?thesis
      by (auto simp: registry_resume next_client_resume)
  qed
qed

lemma run_allocated:
  "whatsappClients (srv (run (idle initial) evs)) v = Some k \<Longrightarrow>
   k < next_client (srv (run (idle initial) evs))"
proof -
  have "(\<forall>v k. whatsappClients (srv (run (idle initial) evs)) v = Some k \<longrightarrow>
            k < next_client (srv (run (idle initial) evs))) \<and>
        (\<forall>j v k. suspended (run (idle initial) evs) j = Some (v, k) \<longrightarrow>
            k < next_client (srv (run (idle initial) evs)))"
  proof (induction evs rule: rev_induct)
    case Nil
    show ?case by (simp add: run_def idle_def initial_def)
  next
    case (snoc ev evs)
    have "run (idle initial) (evs @ [ev]) = step (run (idle initial) evs) ev"
      by (simp add: run_def)
    with snoc step_allocated [of "run (idle initial) evs" ev] show ?case
      by simp
  qed
  then show "whatsappClients (srv (run (idle initial) evs)) v = Some k \<Longrightarrow>
      k < next_client (srv (run (idle initial) evs))"
    by blast
qed

lemma logout_allocated:
  assumes "\<forall>v k. whatsappClients s v = Some k \<longrightarrow> k < next_client s"
  shows "\<forall>v k. whatsappClients (snd (logout_whatsapp s u lr st)) v = Some k \<longrightarrow>
           k < next_client (snd (logout_whatsapp s u lr st))"
  using assms
  by (cases lr; cases st; cases "whatsapp_sessions s u"; cases "whatsappClients s u")
     (auto simp: logout_whatsapp_def store_write_def Let_def split: if_splits)

text \<open>
  C4: \<^verbatim>\<open>POST /logout-whatsapp\<close> for a user with a client \<open>h\<close> in the registry calls
  \<^verbatim>\<open>logout\<close> on it and goes on in the same way whether that call succeeds or is
  rejected; before it answers (with 200) it has removed the user's entries from the
  registry, the client states and the webhook map, and has sent the store the update to
  \<^verbatim>\<open>is_connected: false\<close>, which a store that accepts it applies to the user's row; the
  destruction of \<open>h\<close> is not performed by the handler but left to a timer, whose
  callback calls \<^verbatim>\<open>destroy\<close> and ends in the same way whether that succeeds or is
  rejected, without touching the registry. A call of \<^verbatim>\<open>getWhatsAppClient\<close> for the
  same user after the logout constructs and registers a new client, different from \<open>h\<close>.
\<close>

theorem teardown_then_new_client:
  assumes reg: "whatsappClients s u = Some h" and alloc: "h < next_client s"
  shows
   "let s1 = snd (logout_whatsapp s u lr st);
        s2 = snd (getWhatsAppClient s1 u rd);
        h2 = fst (getWhatsAppClient s1 u rd)
    in status (fst (logout_whatsapp s u lr st)) = 200 \<and>
       effects s1 = effects s @ [Logout h, StoreWrite (UpdateConnected u False)] \<and>
       whatsappClients s1 u = None \<and> clientStates s1 u = None \<and> userWebhooks s1 u = None \<and>
       (st = Up \<longrightarrow>
          whatsapp_sessions s1 u =
            map_option (\<lambda>row. row\<lparr>is_connected := False\<rparr>) (whatsapp_sessions s u)) \<and>
       timers s1 = timers s @ [(2000, h)] \<and>
       effects (destroy_timer s1 h dr) = effects s1 @ [Destroy h] \<and>
       whatsappClients (destroy_timer s1 h dr) = whatsappClients s1 \<and>
       h2 \<noteq> h \<and> whatsappClients s2 u = Some h2 \<and>
       effects s2 = effects s1 @ [NewClient h2 u, Initialize h2]"
proof -
  define s1 where "s1 = snd (logout_whatsapp s u lr st)"
  have lo: "status (fst (logout_whatsapp s u lr st)) = 200"
    using reg by (simp add: logout_whatsapp_def Let_def)
  have s1_eff: "effects s1 = effects s @ [Logout h, StoreWrite (UpdateConnected u False)]"
    using reg
    by (cases lr; cases st; cases "whatsapp_sessions s u")
       (simp_all add: s1_def logout_whatsapp_def store_write_def Let_def)
  have s1_maps: "whatsappClients s1 u = None" "clientStates s1 u = None"
      "userWebhooks s1 u = None"
    using reg
    by (cases lr; cases st; cases "whatsapp_sessions s u";
        simp add: s1_def logout_whatsapp_def store_write_def Let_def)+
  have s1_next: "next_client s1 = next_client s"
    using reg
    by (cases lr; cases st; cases "whatsapp_sessions s u")
       (simp_all add: s1_def logout_whatsapp_def store_write_def Let_def)
  have s1_timers: "timers s1 = timers s @ [(2000, h)]"
    using reg
    by (cases lr; cases st; cases "whatsapp_sessions s u")
       (simp_all add: s1_def logout_whatsapp_def store_write_def Let_def)
  have s1_row: "st = Up \<longrightarrow>
      whatsapp_sessions s1 u =
        map_option (\<lambda>row. row\<lparr>is_connected := False\<rparr>) (whatsapp_sessions s u)"
    using reg
    by (cases lr; cases st; cases "whatsapp_sessions s u")
       (simp_all add: s1_def logout_whatsapp_def store_write_def Let_def)
  have d: "effects (destroy_timer s1 h dr) = effects s1 @ [Destroy h]"
      "whatsappClients (destroy_timer s1 h dr) = whatsappClients s1"
    by (cases dr; simp add: destroy_timer_def Let_def)+
  have g: "fst (getWhatsAppClient s1 u rd) = next_client s"
      "whatsappClients (snd (getWhatsAppClient s1 u rd)) u = Some (next_client s)"
      "effects (snd (getWhatsAppClient s1 u rd)) =
         effects s1 @ [NewClient (next_client s) u, Initialize (next_client s)]"
    using s1_maps(1) s1_next
    by (simp_all add: getWhatsAppClient_def getWhatsAppClient_enter_def
        getWhatsAppClient_resume_def Let_def split: option.splits)
  show ?thesis
    unfolding Let_def s1_def [symmetric]
    using lo s1_eff s1_maps s1_timers s1_row d g alloc by simp
qed

theorem teardown_then_new_client_witness:
  "whatsappClients connected ''u1'' = Some 0 \<and> 0 < next_client connected \<and>
   whatsappClients (snd (logout_whatsapp connected ''u1'' (Rejected ''Protocol error'') Up))
     ''u1'' = None \<and>
   timers (snd (logout_whatsapp connected ''u1'' (Rejected ''Protocol error'') Up)) =
     [(2000, 0)] \<and>
   whatsapp_sessions (snd (logout_whatsapp connected ''u1'' (Rejected ''Protocol error'') Up))
     ''u1'' = Some (enabled_row\<lparr>is_connected := False\<rparr>) \<and>
   fst (getWhatsAppClient
          (snd (logout_whatsapp connected ''u1'' (Rejected ''Protocol error'') Up))
          ''u1'' Up) \<noteq> 0"
proof -
  have h: "whatsappClients connected ''u1'' = Some 0" "0 < next_client connected"
      "timers connected = []" "whatsapp_sessions connected ''u1'' = Some enabled_row"
    by (simp_all add: connected_def)
  show ?thesis
    using h teardown_then_new_client [OF h(1,2), of "Rejected ''Protocol error''" Up Up
        "Rejected ''Target closed''"]
    by (simp add: Let_def)
qed

section \<open>The webhook secret\<close>

lemma length_toString_hex: "length (toString_hex bs) = 2 * length bs"
  by (induction bs) simp_all

lemma toString_hex_nonempty: "bs \<noteq> [] \<Longrightarrow> toString_hex bs \<noteq> []"
  by (cases bs) simp_all

lemma length_secret: "length (toString_hex (randomBytes entropy 32)) = 64"
  by (simp add: length_toString_hex randomBytes_def)

lemma secret_nonempty: "toString_hex (randomBytes entropy 32) \<noteq> []"
  using length_secret [of entropy] by auto

text \<open>
  Every call of the handler that is answered with 200 leaves the user's row with the
  hexadecimal form, 64 digits, of 32 bytes of the source of randomness as its secret.
\<close>

lemma post_webhook_config_rotates:
  assumes "status (fst (post_webhook_config s u wurl en entropy rs ws)) = 200"
  shows "\<exists>row. whatsapp_sessions (snd (post_webhook_config s u wurl en entropy rs ws)) u = Some row \<and>
           webhook_secret row = Some (toString_hex (randomBytes entropy 32))"
  using assms
  by (cases rs; cases ws; cases "whatsapp_sessions s u"; cases "as_boolean (or_false en)")
     (auto simp: post_webhook_config_def store_write_def select_row_def Let_def
           split: option.splits if_splits)

text \<open>
  When the flag is absent or falsy, or the URL is absent or empty, such a call answers
  without the secret and removes the user's entry from the webhook map.
\<close>

lemma post_webhook_config_falsy:
  assumes "status (fst (post_webhook_config s u wurl en entropy rs ws)) = 200"
    and "en = None \<or> (\<exists>v. en = Some v \<and> \<not> truthy v) \<or> or_null wurl = None"
  shows "body (fst (post_webhook_config s u wurl en entropy rs ws)) =
           [(''success'', JBool True), (''message'', JStr ''Webhook configured successfully'')]"
    and "userWebhooks (snd (post_webhook_config s u wurl en entropy rs ws)) u = None"
  using assms
  by (cases rs; cases ws; cases "whatsapp_sessions s u"; cases "as_boolean (or_false en)";
      auto simp: post_webhook_config_def store_write_def select_row_def Let_def
           split: option.splits if_splits)+

text \<open>
  C9, on the code: user \<^verbatim>\<open>u1\<close>, whose webhook is enabled, sends
  \<^verbatim>\<open>POST /webhook/config\<close> with the URL and with \<^verbatim>\<open>webhook_enabled\<close> the string
  \<^verbatim>\<open>false\<close>, as a form or a JSON client may send it to switch the webhook off. The
  string passes \<^verbatim>\<open>isBoolean()\<close>, and being a non-empty string it is truthy where the
  handler decides what to answer: the call succeeds, the store has the new secret and
  the flag false, and yet the answer carries the new secret and the webhook map keeps
  the URL.
\<close>

theorem disabling_string_reveals_secret:
  "enabled_errors (Some (JStr ''false'')) = [] \<and>
   status (fst (post_webhook_config connected ''u1'' (Some ''https://example.com/hook'')
                  (Some (JStr ''false'')) example_entropy Up Up)) = 200 \<and>
   whatsapp_sessions
     (snd (post_webhook_config connected ''u1'' (Some ''https://example.com/hook'')
             (Some (JStr ''false'')) example_entropy Up Up)) ''u1'' =
     Some \<lparr>webhook_url = Some ''https://example.com/hook'', webhook_enabled = False,
           webhook_secret = Some (toString_hex (randomBytes example_entropy 32)),
           is_connected = True\<rparr> \<and>
   map_of (body (fst (post_webhook_config connected ''u1'' (Some ''https://example.com/hook'')
                        (Some (JStr ''false'')) example_entropy Up Up))) ''webhook_secret'' =
     Some (JStr (toString_hex (randomBytes example_entropy 32))) \<and>
   userWebhooks
     (snd (post_webhook_config connected ''u1'' (Some ''https://example.com/hook'')
             (Some (JStr ''false'')) example_entropy Up Up)) ''u1'' =
     Some ''https://example.com/hook''"
proof -
  have v: "enabled_errors (Some (JStr ''false'')) = []"
    by (simp add: enabled_errors_def toString_field_def toString_shallow_def isBoolean_def)
  show ?thesis
    by (simp add: v)
       (simp add: post_webhook_config_def connected_def enabled_row_def select_row_def
          store_write_def or_null_def or_false_def Let_def)
qed

lemma get_webhook_config_stored_secret:
  "whatsapp_sessions s u = Some row \<Longrightarrow> webhook_secret row = Some sec \<Longrightarrow> sec \<noteq> [] \<Longrightarrow>
   map_of (body (fst (get_webhook_config s u baseUrl Up))) ''webhook_secret'' = Some (JStr sec)"
  by (simp add: get_webhook_config_def or_null_def json_of_def)

text \<open>
  C2, on the code: user \<^verbatim>\<open>u1\<close> enables a webhook; the answer carries the generated
  secret, with the note that it will not be seen again. The next
  \<^verbatim>\<open>GET /webhook/config\<close> of the same user returns that secret in its
  \<^verbatim>\<open>webhook_secret\<close> field.
\<close>

theorem get_webhook_config_returns_secret:
  "map_of (body (fst (post_webhook_config initial ''u1'' (Some ''https://example.com/hook'')
                        (Some (JBool True)) example_entropy Up Up))) ''webhook_secret'' =
     Some (JStr (toString_hex (randomBytes example_entropy 32))) \<and>
   map_of (body (fst (post_webhook_config initial ''u1'' (Some ''https://example.com/hook'')
                        (Some (JBool True)) example_entropy Up Up))) ''note'' =
     Some (JStr (warning_sign @ '' Save this secret! You will not see it again.'')) \<and>
   map_of (body (fst (get_webhook_config
                        (snd (post_webhook_config initial ''u1''
                                (Some ''https://example.com/hook'') (Some (JBool True))
                                example_entropy Up Up))
                        ''u1'' ''https://relay.example'' Up))) ''webhook_secret'' =
     Some (JStr (toString_hex (randomBytes example_entropy 32)))"
  by (simp add: post_webhook_config_def get_webhook_config_def initial_def or_null_def
      or_false_def json_of_def select_row_def store_write_def Let_def secret_nonempty)

section \<open>Two calls of getWhatsAppClient in flight\<close>

text \<open>
  C1, on the code: two requests of user \<^verbatim>\<open>u1\<close>, who has no client yet, reach
  \<^verbatim>\<open>getWhatsAppClient\<close> one after the other before the store has answered the first.
  Both find the registry empty and construct a client. When the answers arrive, call 1
  registers client 0 and call 2 replaces it with client 1: two distinct clients have been
  constructed, initialised and registered for the same user, the two calls return
  different clients, and client 0 stays initialised with no entry pointing to it.
\<close>

theorem concurrent_getWhatsAppClient_two_clients:
  "returned (run (idle initial)
      [Enter 1 ''u1'', Enter 2 ''u1'', Resume 1 Up, Resume 2 Up]) 1 = Some 0 \<and>
   returned (run (idle initial)
      [Enter 1 ''u1'', Enter 2 ''u1'', Resume 1 Up, Resume 2 Up]) 2 = Some 1 \<and>
   whatsappClients (srv (run (idle initial)
      [Enter 1 ''u1'', Enter 2 ''u1'', Resume 1 Up])) ''u1'' = Some 0 \<and>
   whatsappClients (srv (run (idle initial)
      [Enter 1 ''u1'', Enter 2 ''u1'', Resume 1 Up, Resume 2 Up])) ''u1'' = Some 1 \<and>
   effects (srv (run (idle initial)
      [Enter 1 ''u1'', Enter 2 ''u1'', Resume 1 Up, Resume 2 Up])) =
     [NewClient 0 ''u1'', NewClient 1 ''u1'', Initialize 0, Initialize 1]"
  by (simp add: run_def idle_def initial_def getWhatsAppClient_enter_def
      getWhatsAppClient_resume_def select_row_def)

end
